theory Spec2Isabelle
  imports Complex_Main
begin

section \<open>JavaScript values and strings\<close>

text \<open>
  The client is a React front end. Its handlers read and write the browser's local
  storage, call a backend over HTTP and call the CryptoJS library. The handlers are
  embedded as functions from their inputs (local storage, component state, what the
  user typed, the collaborators' answers, the clock and the random source) to the new
  local storage, the user-visible outcome and the list of HTTP requests sent.

  Documents are JSON values. \<open>JUndefined\<close> is JavaScript's \<open>undefined\<close>, the value
  of a property that is absent.
\<close>

datatype jsval =
    JUndefined
  | JNull
  | JBool bool
  | JNum int
  | JStr string
  | JArr "jsval list"
  | JObj "(string \<times> jsval) list"

text \<open>The message of a thrown error.\<close>

type_synonym exn = string

fun truthy :: "jsval \<Rightarrow> bool" where
  "truthy JUndefined = False"
| "truthy JNull = False"
| "truthy (JBool b) = b"
| "truthy (JNum n) = (n \<noteq> 0)"
| "truthy (JStr s) = (s \<noteq> [])"
| "truthy (JArr xs) = True"
| "truthy (JObj kvs) = True"

text \<open>
  \<open>v.k\<close>: reading a property of \<open>undefined\<close> or \<open>null\<close> throws a TypeError; an object
  yields the value stored under the key or \<open>undefined\<close>; the built-in properties of
  strings, numbers and arrays are not modelled and read as \<open>undefined\<close>.
\<close>

fun get_prop :: "jsval \<Rightarrow> string \<Rightarrow> exn + jsval" where
  "get_prop JUndefined k = Inl ''TypeError''"
| "get_prop JNull k = Inl ''TypeError''"
| "get_prop (JObj kvs) k = Inr (case map_of kvs k of None \<Rightarrow> JUndefined | Some v \<Rightarrow> v)"
| "get_prop v k = Inr JUndefined"

text \<open>\<open>v?.k\<close>: optional chaining yields \<open>undefined\<close> on \<open>undefined\<close> and \<open>null\<close>.\<close>

fun get_prop_opt :: "jsval \<Rightarrow> string \<Rightarrow> jsval" where
  "get_prop_opt (JObj kvs) k = (case map_of kvs k of None \<Rightarrow> JUndefined | Some v \<Rightarrow> v)"
| "get_prop_opt v k = JUndefined"

text \<open>\<open>a || b\<close> on values.\<close>

definition js_or :: "jsval \<Rightarrow> jsval \<Rightarrow> jsval" where
  "js_or a b = (if truthy a then a else b)"

text \<open>
  \<open>String.prototype.trim\<close> on the 8-bit characters of HOL strings: blank, tab, line
  feed, vertical tab, form feed, carriage return and the no-break space are removed
  from both ends.
\<close>

definition is_space :: "char \<Rightarrow> bool" where
  "is_space c = (c \<in> set [CHR '' '', CHR 0x09, CHR 0x0A, CHR 0x0B, CHR 0x0C, CHR 0x0D, CHR 0xA0])"

definition trim :: "string \<Rightarrow> string" where
  "trim s = rev (dropWhile is_space (rev (dropWhile is_space s)))"

text \<open>\<open>s.slice(0, n)\<close> and \<open>s.charAt(i)\<close> (the empty string out of range).\<close>

definition slice0 :: "nat \<Rightarrow> string \<Rightarrow> string" where
  "slice0 n s = take n s"

definition charAt :: "string \<Rightarrow> nat \<Rightarrow> string" where
  "charAt s i = (if i < length s then [s ! i] else [])"

text \<open>\<open>s.replace(/^["']|["']$/g, '')\<close>: one quote is removed from each end.\<close>

definition is_quote :: "char \<Rightarrow> bool" where
  "is_quote c = (c = CHR 0x22 \<or> c = CHR 0x27)"

definition strip_quotes :: "string \<Rightarrow> string" where
  "strip_quotes s =
     (let s1 = (case s of [] \<Rightarrow> [] | c # cs \<Rightarrow> if is_quote c then cs else s)
      in if s1 \<noteq> [] \<and> is_quote (last s1) then butlast s1 else s1)"

section \<open>Local storage\<close>

record identity =
  did :: string
  publicKey :: string
  privateKey :: string
  address :: string
  createdAt :: string

text \<open>
  The identifier of a credential record: \<open>Date.now()\<close> in the first issuance handler,
  \<open>cred_<Date.now()>_<random suffix>\<close> in the current one (kept as its two ingredients,
  the clock reading and the random draw).
\<close>

datatype cred_id = IdMillis int | IdCred int real

text \<open>
  The record written per issued credential. The fields from \<open>status\<close> on are written
  by the current handler only; in a record of the first handler they are absent
  (\<open>None\<close>, \<open>JUndefined\<close>).
\<close>

record credentialRecord =
  cr_id :: cred_id
  cr_did :: jsval
  cr_issuer :: jsval
  cr_cid :: string
  cr_signature :: string
  cr_degreeData :: jsval
  cr_issuanceDate :: jsval
  cr_isSimulated :: bool
  cr_ipfsGatewayUrl :: string
  cr_status :: "string option"
  cr_encrypted :: "bool option"
  cr_encryptedData :: "string option"
  cr_vcData :: jsval

text \<open>
  Local storage maps a key to an item, a text. The serialisation of the client's own
  records is not modelled: an item is an identity or a list of credential records as
  the handlers wrote them, any other text that \<open>JSON.parse\<close> reads (held as the
  value it yields; an array among these is taken to hold no credential record), or a
  text that \<open>JSON.parse\<close> rejects (the empty text is one).
\<close>

datatype stored =
    StoredIdentity identity
  | StoredCredentials "credentialRecord list"
  | StoredJson jsval
  | StoredText string

type_synonym localStorage = "string \<rightharpoonup> stored"

definition getItem :: "localStorage \<Rightarrow> string \<Rightarrow> stored option" where
  "getItem ls k = ls k"

definition setItem :: "localStorage \<Rightarrow> string \<Rightarrow> stored \<Rightarrow> localStorage" where
  "setItem ls k v = ls(k \<mapsto> v)"

definition removeItem :: "localStorage \<Rightarrow> string \<Rightarrow> localStorage" where
  "removeItem ls k = ls(k := None)"

text \<open>
  \<open>if (!item)\<close>: the handlers test what \<open>getItem\<close> returns for falsiness, so the
  empty text counts as absent.
\<close>

fun nonempty :: "stored option \<Rightarrow> stored option" where
  "nonempty (Some (StoredText [])) = None"
| "nonempty item = item"

text \<open>
  \<open>JSON.parse\<close> of the identity item and the three fields the handlers read from the
  value. A field that is missing reads as \<open>undefined\<close>; every handler reads a field
  right after parsing, which throws when the value is \<open>null\<close>.
\<close>

record identity_fields =
  if_did :: jsval
  if_publicKey :: jsval
  if_privateKey :: jsval

fun parse_identity :: "stored \<Rightarrow> exn + identity_fields" where
  "parse_identity (StoredIdentity i) =
     Inr \<lparr>if_did = JStr (did i), if_publicKey = JStr (publicKey i),
          if_privateKey = JStr (privateKey i)\<rparr>"
| "parse_identity (StoredCredentials cs) =
     Inr \<lparr>if_did = JUndefined, if_publicKey = JUndefined, if_privateKey = JUndefined\<rparr>"
| "parse_identity (StoredJson v) =
     (case get_prop v ''did'' of
        Inl err \<Rightarrow> Inl err
      | Inr d \<Rightarrow>
          Inr \<lparr>if_did = d, if_publicKey = get_prop_opt v ''publicKey'',
               if_privateKey = get_prop_opt v ''privateKey''\<rparr>)"
| "parse_identity (StoredText s) = Inl ''SyntaxError''"

text \<open>
  \<open>JSON.parse\<close> of the credentials item followed by \<open>credentials.find\<close>: a value that
  is not an array has no \<open>find\<close> and \<open>null\<close> has no properties (a TypeError); an array
  that holds no record of the handlers yields no match, unless reading \<open>cid\<close> of a
  \<open>null\<close> element throws.
\<close>

fun parse_credentials :: "stored \<Rightarrow> exn + credentialRecord list" where
  "parse_credentials (StoredCredentials cs) = Inr cs"
| "parse_credentials (StoredIdentity i) = Inl ''TypeError''"
| "parse_credentials (StoredJson (JArr xs)) =
     (if JNull \<in> set xs then Inl ''TypeError'' else Inr [])"
| "parse_credentials (StoredJson v) = Inl ''TypeError''"
| "parse_credentials (StoredText s) = Inl ''SyntaxError''"

section \<open>Collaborators\<close>

text \<open>The payloads sent to the backend and its answers (\<open>response.data\<close>).\<close>

record create_did_response =
  cd_success :: bool
  cd_did :: string
  cd_publicKey :: string
  cd_privateKey :: string
  cd_address :: string
  cd_message :: string

record issue_request =
  iq_holderDID :: jsval
  iq_holderPublicKey :: jsval
  iq_degree :: jsval

record issue_response =
  ir_success :: bool
  ir_vc :: jsval
  ir_signature :: string

record upload_metadata =
  um_holderDID :: jsval
  um_issuerDID :: jsval
  um_issuanceDate :: jsval
  um_credentialType :: jsval

record upload_request =
  uq_encryptedVC :: string
  uq_metadata :: upload_metadata

record upload_response =
  ur_success :: bool
  ur_cid :: string
  ur_isSimulated :: "bool option"
  ur_ipfsGatewayUrl :: string

record retrieve_response =
  rr_success :: bool
  rr_data :: "string option"
  rr_error :: string

record verify_response =
  vr_isValid :: bool
  vr_verified :: bool
  vr_message :: string
  vr_issuer :: jsval
  vr_subject :: jsval

datatype request =
    PostCreateDID
  | PostIssueVC issue_request
  | PostUploadToIPFS upload_request
  | PostRetrieveFromIPFS string
  | PostVerifyVC jsval string

text \<open>
  What the handlers call and do not define: the backend's endpoints (\<open>axios.post\<close>
  rejects with \<open>Inl\<close>), CryptoJS (\<open>'w\<close> is its WordArray; a ciphertext or key argument
  is any JavaScript value, a text key being a passphrase) and the JSON built-ins.
\<close>

record 'w env =
  api_create_did :: "exn + create_did_response"
  api_issue_vc :: "issue_request \<Rightarrow> exn + issue_response"
  api_upload_to_ipfs :: "upload_request \<Rightarrow> exn + upload_response"
  api_retrieve_from_ipfs :: "string \<Rightarrow> exn + retrieve_response"
  api_verify_vc :: "jsval \<Rightarrow> string \<Rightarrow> exn + verify_response"
  aes_encrypt :: "string \<Rightarrow> jsval \<Rightarrow> exn + string"
  aes_decrypt :: "jsval \<Rightarrow> jsval \<Rightarrow> exn + 'w"
  enc_utf8 :: "'w \<Rightarrow> exn + string"
  enc_latin1 :: "'w \<Rightarrow> exn + string"
  enc_hex :: "'w \<Rightarrow> exn + string"
  json_stringify :: "jsval \<Rightarrow> string"
  json_parse :: "string \<Rightarrow> exn + jsval"

section \<open>Identity tab\<close>

text \<open>What a handler leaves on the screen.\<close>

datatype message =
    MsgNone
  | MsgCreatingDID
  | MsgDIDCreated string
  | MsgErrorCreatingDID exn
  | MsgIdentityCleared
  | MsgCredentialsCleared
  | MsgCreateIdentityFirst
  | MsgErrorIssuingVC
  | MsgErrorUploadingToIPFS
  | MsgIssuedAndStored string bool
  | MsgIssued string
  | MsgError exn
  | MsgPleaseEnterCID
  | MsgCouldNotRetrieveFromIPFS
  | MsgCIDNotFound
  | MsgErrorRetrievingFromIPFS string
  | MsgNoEncryptedDataFound
  | MsgDecryptionFailedWrongKey
  | MsgNoSignatureInLocalStorage
  | MsgCredentialNotInLocalStorage
  | MsgErrorDecrypting exn
  | MsgBackend string
  | MsgNotFoundInIPFSOrLocal
  | MsgNoEncryptedDataAvailable
  | MsgDecryptionFailedCannotRead
  | MsgVerifiedUsingStoredData
  | MsgVerifiedSuccessfully
  | MsgFailedToParse
  | MsgVerificationFailed exn

record 'a outcome =
  out_store :: localStorage
  out_message :: message
  out_sent :: "request list"
  out_value :: 'a

text \<open>
  \<open>handleCreateDID\<close>: the backend generates the key pair and the identifiers; the
  handler stores its answer, with the time of creation, under \<open>userIdentity\<close>. An
  answer without \<open>success\<close> leaves the progress message on the screen.
\<close>

definition handleCreateDID :: "'w env \<Rightarrow> string \<Rightarrow> localStorage \<Rightarrow> identity option outcome" where
  "handleCreateDID e now ls =
     (case api_create_did e of
        Inl err \<Rightarrow>
          \<lparr>out_store = ls, out_message = MsgErrorCreatingDID err,
           out_sent = [PostCreateDID], out_value = None\<rparr>
      | Inr r \<Rightarrow>
          if cd_success r then
            let newIdentity = \<lparr>did = cd_did r, publicKey = cd_publicKey r,
                               privateKey = cd_privateKey r, address = cd_address r,
                               createdAt = now\<rparr>
            in \<lparr>out_store = setItem ls ''userIdentity'' (StoredIdentity newIdentity),
                out_message = MsgDIDCreated (cd_message r),
                out_sent = [PostCreateDID], out_value = Some newIdentity\<rparr>
          else
            \<lparr>out_store = ls, out_message = MsgCreatingDID,
             out_sent = [PostCreateDID], out_value = None\<rparr>)"

text \<open>\<open>handleClearIdentity\<close>, with the user's answer to the confirmation dialog.\<close>

definition handleClearIdentity :: "bool \<Rightarrow> localStorage \<Rightarrow> localStorage" where
  "handleClearIdentity confirmed ls =
     (if confirmed then removeItem ls ''userIdentity'' else ls)"

text \<open>\<open>handleClearCredentials\<close> of the credential tab.\<close>

definition handleClearCredentials :: "localStorage \<Rightarrow> localStorage" where
  "handleClearCredentials ls = removeItem ls ''userCredentials''"

section \<open>Credential tab\<close>

text \<open>
  The cipher key. The handlers of the first variant (\<open>handleRequestVC\<close> and
  \<open>handleVerify\<close> whose verdict comes from the backend, here with suffix \<open>_v1\<close>) use
  \<open>identity.privateKey.slice(0, 32)\<close>; the current handlers use \<open>identity.privateKey\<close>.
  \<open>slice\<close> exists on texts and arrays; on any other value the call throws.
\<close>

fun slice_key :: "jsval \<Rightarrow> exn + jsval" where
  "slice_key (JStr s) = Inr (JStr (slice0 32 s))"
| "slice_key (JArr xs) = Inr (JArr (take 32 xs))"
| "slice_key v = Inl ''TypeError''"

text \<open>A handler that stops early: nothing is stored and no value is produced.\<close>

definition stop :: "localStorage \<Rightarrow> message \<Rightarrow> request list \<Rightarrow> 'a option outcome" where
  "stop ls m sent = \<lparr>out_store = ls, out_message = m, out_sent = sent, out_value = None\<rparr>"


text \<open>
  \<open>generateMockCID\<close>: \<open>Qm\<close> followed by 42 characters, each picked by one draw of
  \<open>Math.random()\<close>. The random source is the sequence of its draws, each the real
  number that the double is; the loop passes on the draws it has not used.

  \<open>Math.floor(r * n)\<close> multiplies in double precision: the exact product is rounded
  to the nearest double before the floor is taken. For a draw \<open>0 \<le> r < 1\<close> and a
  small \<open>n\<close> the rounded product is the next integer exactly when the product lies
  within half a unit in the last place below it; the doubles below an integer \<open>m\<close>
  are spaced \<open>2 ^ bitlen (m - 1) / 2 ^ 53\<close> apart.
\<close>

fun bitlen :: "nat \<Rightarrow> nat" where
  "bitlen n = (if n = 0 then 0 else Suc (bitlen (n div 2)))"

declare bitlen.simps [simp del]

definition floor_mul :: "real \<Rightarrow> nat \<Rightarrow> nat" where
  "floor_mul r n =
     (let x = r * real n; k = nat \<lfloor>x\<rfloor>
      in if real (k + 1) - 2 ^ bitlen k / 2 ^ 54 \<le> x then k + 1 else k)"

definition chars :: string where
  "chars = ''123456789ABCDEFGHJKLMNPQRSTUVWXYZabcdefghijkmnopqrstuvwxyz''"

fun mockCID_loop :: "nat \<Rightarrow> (nat \<Rightarrow> real) \<Rightarrow> string \<Rightarrow> string" where
  "mockCID_loop 0 rnd cid = cid"
| "mockCID_loop (Suc n) rnd cid =
     mockCID_loop n (\<lambda>i. rnd (Suc i))
       (cid @ charAt chars (floor_mul (rnd 0) (length chars)))"

definition generateMockCID :: "(nat \<Rightarrow> real) \<Rightarrow> string" where
  "generateMockCID rnd = mockCID_loop 42 rnd ''Qm''"

definition createAlwaysValidSignature :: string where
  "createAlwaysValidSignature =
     ''0x1234567890abcdef1234567890abcdef1234567890abcdef1234567890abcdef1234567890abcdef1234567890abcdef1234567890abcdef1234567890abcdef''"

text \<open>
  \<open>handleRequestVC\<close>, current variant: the credential is built, "signed", encrypted
  and addressed in the browser; no request is sent. \<open>isoNow\<close> is
  \<open>new Date().toISOString()\<close>, \<open>millis\<close> is \<open>Date.now()\<close>; draw 42 of the random source,
  the one after the CID's, goes into the record's identifier.
\<close>

definition handleRequestVC ::
  "'w env \<Rightarrow> string \<Rightarrow> int \<Rightarrow> (nat \<Rightarrow> real) \<Rightarrow> credentialRecord list \<Rightarrow> jsval
     \<Rightarrow> localStorage \<Rightarrow> credentialRecord option outcome" where
  "handleRequestVC e isoNow millis rnd credentials degreeData ls =
     (case nonempty (getItem ls ''userIdentity'') of
        None \<Rightarrow> stop ls MsgCreateIdentityFirst []
      | Some identityStr \<Rightarrow>
     (case parse_identity identityStr of
        Inl err \<Rightarrow> stop ls (MsgError err) []
      | Inr identity \<Rightarrow>
     (let vc = JObj [(''issuer'', JStr ''did:ethr:0x123456789abcdef''),
                     (''credentialSubject'',
                        JObj [(''id'', if_did identity), (''degree'', degreeData)]),
                     (''issuanceDate'', JStr isoNow),
                     (''type'', JArr [JStr ''VerifiableCredential'',
                                      JStr ''UniversityDegreeCredential''])];
          signature = createAlwaysValidSignature;
          encryptionKey = if_privateKey identity
      in
     (case aes_encrypt e (json_stringify e vc) encryptionKey of
        Inl err \<Rightarrow> stop ls (MsgError err) []
      | Inr encryptedVC \<Rightarrow>
     (let cid = generateMockCID rnd;
          credentialRecord =
            \<lparr>cr_id = IdCred millis (rnd 42), cr_did = if_did identity,
             cr_issuer = JStr ''did:ethr:0x123456789abcdef'',
             cr_cid = cid, cr_signature = signature, cr_degreeData = degreeData,
             cr_issuanceDate = JStr isoNow, cr_isSimulated = True,
             cr_ipfsGatewayUrl = ''https://ipfs.io/ipfs/'' @ cid,
             cr_status = Some ''active'', cr_encrypted = Some True,
             cr_encryptedData = Some encryptedVC, cr_vcData = vc\<rparr>;
          updatedCredentials = credentialRecord # credentials
      in \<lparr>out_store = setItem ls ''userCredentials'' (StoredCredentials updatedCredentials),
          out_message = MsgIssued cid,
          out_sent = [],
          out_value = Some credentialRecord\<rparr>)))))"

section \<open>Verify tab\<close>

record verificationResult =
  res_isValid :: bool
  res_verified :: bool
  res_message :: message
  res_issuer :: jsval
  res_subject :: jsval
  res_isSimulated :: "bool option"
  res_verificationDate :: "string option"

text \<open>
  The component's state that a verification leaves behind. \<open>verificationStep\<close> is
  the progress marker of the current handler (1 identity check, 2 data retrieval,
  3 decryption, 4 signature check, 5 validation); the first variant has none and
  leaves it at 0.
\<close>

record verify_view =
  verificationResult :: "verificationResult option"
  decryptedVC :: "jsval option"
  verificationStep :: nat

definition report ::
  "localStorage \<Rightarrow> message \<Rightarrow> request list \<Rightarrow> verificationResult option \<Rightarrow> jsval option
     \<Rightarrow> nat \<Rightarrow> verify_view outcome" where
  "report ls m sent res vc step =
     \<lparr>out_store = ls, out_message = m, out_sent = sent,
      out_value = \<lparr>verificationResult = res, decryptedVC = vc, verificationStep = step\<rparr>\<rparr>"

text \<open>\<open>credentials.find((c) => c.cid === cid.trim())\<close> over the stored records.\<close>

definition find_cred :: "credentialRecord list \<Rightarrow> string \<Rightarrow> credentialRecord option" where
  "find_cred credentials cid = find (\<lambda>c. cr_cid c = trim cid) credentials"

subsection \<open>First variant: the backend gives the verdict\<close>

definition handleVerify_v1 ::
  "'w env \<Rightarrow> verify_view \<Rightarrow> string \<Rightarrow> localStorage \<Rightarrow> verify_view outcome" where
  "handleVerify_v1 e prev cid ls =
     (if trim cid = [] then
        \<lparr>out_store = ls, out_message = MsgPleaseEnterCID, out_sent = [], out_value = prev\<rparr>
      else
     (case nonempty (getItem ls ''userIdentity'') of
        None \<Rightarrow> report ls MsgCreateIdentityFirst [] None None 0
      | Some identityStr \<Rightarrow>
     (case parse_identity identityStr of
        Inl err \<Rightarrow> report ls (MsgError err) [] None None 0
      | Inr identity \<Rightarrow>
     (case slice_key (if_privateKey identity) of
        Inl err \<Rightarrow> report ls (MsgError err) [] None None 0
      | Inr decryptionKey \<Rightarrow>
     (let sent = [PostRetrieveFromIPFS (trim cid)];
          resolved =
            (case api_retrieve_from_ipfs e (trim cid) of
               Inl err \<Rightarrow> Inl MsgCouldNotRetrieveFromIPFS
             | Inr retrieveResponse \<Rightarrow>
                 if rr_success retrieveResponse then Inr (rr_data retrieveResponse)
                 else
                   (case nonempty (getItem ls ''userCredentials'') of
                      None \<Rightarrow> Inl (MsgErrorRetrievingFromIPFS (rr_error retrieveResponse))
                    | Some credentialsStr \<Rightarrow>
                        (case parse_credentials credentialsStr of
                           Inl err \<Rightarrow> Inl MsgCouldNotRetrieveFromIPFS
                         | Inr credentials \<Rightarrow>
                             (case find_cred credentials cid of
                                Some foundCred \<Rightarrow> Inr None
                              | None \<Rightarrow> Inl MsgCIDNotFound))))
      in
     (case resolved of
        Inl m \<Rightarrow> report ls m sent None None 0
      | Inr None \<Rightarrow> report ls MsgNoEncryptedDataFound sent None None 0
      | Inr (Some encryptedVC) \<Rightarrow>
     (if encryptedVC = [] then report ls MsgNoEncryptedDataFound sent None None 0
      else
     (case aes_decrypt e (JStr encryptedVC) decryptionKey of
        Inl err \<Rightarrow> report ls (MsgErrorDecrypting err) sent None None 0
      | Inr bytes \<Rightarrow>
     (case enc_utf8 e bytes of
        Inl err \<Rightarrow> report ls (MsgErrorDecrypting err) sent None None 0
      | Inr decrypted \<Rightarrow>
     (if decrypted = [] then report ls MsgDecryptionFailedWrongKey sent None None 0
      else
     (case json_parse e decrypted of
        Inl err \<Rightarrow> report ls (MsgErrorDecrypting err) sent None None 0
      | Inr vc \<Rightarrow>
     (case nonempty (getItem ls ''userCredentials'') of
        None \<Rightarrow> report ls MsgNoSignatureInLocalStorage sent None (Some vc) 0
      | Some credentialsStr \<Rightarrow>
     (case parse_credentials credentialsStr of
        Inl err \<Rightarrow> report ls (MsgErrorDecrypting err) sent None (Some vc) 0
      | Inr credentials \<Rightarrow>
     (case find_cred credentials cid of
        None \<Rightarrow> report ls MsgCredentialNotInLocalStorage sent None (Some vc) 0
      | Some foundCred \<Rightarrow>
     (let sent2 = sent @ [PostVerifyVC vc (cr_signature foundCred)]
      in
     (case api_verify_vc e vc (cr_signature foundCred) of
        Inl err \<Rightarrow> report ls (MsgErrorDecrypting err) sent2 None (Some vc) 0
      | Inr verifyResponse \<Rightarrow>
          report ls (MsgBackend (vr_message verifyResponse)) sent2
            (Some \<lparr>res_isValid = vr_isValid verifyResponse,
                   res_verified = vr_verified verifyResponse,
                   res_message = MsgBackend (vr_message verifyResponse),
                   res_issuer = vr_issuer verifyResponse,
                   res_subject = vr_subject verifyResponse,
                   res_isSimulated = None,
                   res_verificationDate = None\<rparr>)
            (Some vc) 0))))))))))))))))"

subsection \<open>Current variant\<close>

datatype decrypt_method =
  MUtf8 | MLatin1 | MHex | MJsonUtf8 | MCleanUtf8 | MFailed | MErrored

text \<open>\<open>CryptoJS.AES.decrypt(data, key).toString(CryptoJS.enc.Utf8)\<close>.\<close>

definition decrypt_utf8 :: "'w env \<Rightarrow> jsval \<Rightarrow> string \<Rightarrow> exn + string" where
  "decrypt_utf8 e data key =
     (case aes_decrypt e data (JStr key) of Inl err \<Rightarrow> Inl err | Inr bytes \<Rightarrow> enc_utf8 e bytes)"

text \<open>
  Method 2 of \<open>decryptWithMultipleMethods\<close>: the data is parsed as JSON and its
  \<open>encrypted\<close> or \<open>data\<close> property decrypted. A throw is swallowed by the method's own
  \<open>catch\<close>.
\<close>

definition decrypt_method2 :: "'w env \<Rightarrow> string \<Rightarrow> string \<Rightarrow> string option" where
  "decrypt_method2 e encryptedData key =
     (case json_parse e encryptedData of
        Inl err \<Rightarrow> None
      | Inr parsedData \<Rightarrow>
     (case get_prop parsedData ''encrypted'' of
        Inl err \<Rightarrow> None
      | Inr enc \<Rightarrow>
     (case get_prop parsedData ''data'' of
        Inl err \<Rightarrow> None
      | Inr dat \<Rightarrow>
          if truthy (js_or enc dat) then
            (case decrypt_utf8 e (js_or enc dat) key of
               Inl err \<Rightarrow> None
             | Inr decryptedText \<Rightarrow> if decryptedText \<noteq> [] then Some decryptedText else None)
          else None)))"

text \<open>Method 3: the data without surrounding quotes and blanks.\<close>

definition decrypt_method3 :: "'w env \<Rightarrow> string \<Rightarrow> string \<Rightarrow> string option" where
  "decrypt_method3 e encryptedData key =
     (let cleanData = trim (strip_quotes encryptedData)
      in case decrypt_utf8 e (JStr cleanData) key of
           Inl err \<Rightarrow> None
         | Inr decryptedText \<Rightarrow> if decryptedText \<noteq> [] then Some decryptedText else None)"

definition decryptWithMultipleMethods ::
  "'w env \<Rightarrow> string \<Rightarrow> string \<Rightarrow> string \<times> decrypt_method" where
  "decryptWithMultipleMethods e encryptedData key =
     (case aes_decrypt e (JStr encryptedData) (JStr key) of
        Inl err \<Rightarrow> ([], MErrored)
      | Inr decryptedBytes \<Rightarrow>
     (case enc_utf8 e decryptedBytes of
        Inl err \<Rightarrow> ([], MErrored)
      | Inr utf8 \<Rightarrow>
     (if utf8 \<noteq> [] then (utf8, MUtf8)
      else
     (case enc_latin1 e decryptedBytes of
        Inl err \<Rightarrow> ([], MErrored)
      | Inr latin1 \<Rightarrow>
     (if latin1 \<noteq> [] then (latin1, MLatin1)
      else
     (case enc_hex e decryptedBytes of
        Inl err \<Rightarrow> ([], MErrored)
      | Inr hex \<Rightarrow>
     (if hex \<noteq> [] then (hex, MHex)
      else
     (case decrypt_method2 e encryptedData key of
        Some t \<Rightarrow> (t, MJsonUtf8)
      | None \<Rightarrow>
     (case decrypt_method3 e encryptedData key of
        Some t \<Rightarrow> (t, MCleanUtf8)
      | None \<Rightarrow> ([], MFailed))))))))))"

text \<open>The record of local storage with the CID, if the list can be read.\<close>

definition foundCred :: "localStorage \<Rightarrow> string \<Rightarrow> credentialRecord option" where
  "foundCred ls cid =
     (case nonempty (getItem ls ''userCredentials'') of
        None \<Rightarrow> None
      | Some credentialsStr \<Rightarrow>
          (case parse_credentials credentialsStr of
             Inl err \<Rightarrow> None
           | Inr credentials \<Rightarrow> find_cred credentials cid))"

text \<open>The ciphertext cached in that record (\<open>if (foundCred.encryptedData)\<close>).\<close>

definition local_encryptedVC :: "credentialRecord option \<Rightarrow> string option" where
  "local_encryptedVC found =
     (case found of
        None \<Rightarrow> None
      | Some c \<Rightarrow>
          (case cr_encryptedData c of
             None \<Rightarrow> None
           | Some d \<Rightarrow> if d \<noteq> [] then Some d else None))"

text \<open>
  The retrieval from IPFS: a rejected request, an answer without \<open>success\<close> and an
  answer without data (reading its \<open>length\<close> throws) all land in the same \<open>catch\<close>.
\<close>

definition ipfs_encryptedVC :: "'w env \<Rightarrow> string \<Rightarrow> exn + string" where
  "ipfs_encryptedVC e cid =
     (case api_retrieve_from_ipfs e (trim cid) of
        Inl err \<Rightarrow> Inl err
      | Inr retrieveResponse \<Rightarrow>
          if rr_success retrieveResponse then
            (case rr_data retrieveResponse of
               None \<Rightarrow> Inl ''TypeError''
             | Some d \<Rightarrow> Inr d)
          else Inl (rr_error retrieveResponse))"

text \<open>
  Steps 3 to 5, once the ciphertext is there. \<open>String.prototype.trim\<close> already removes
  a byte order mark, so the \<open>replace\<close> after it changes nothing.
\<close>

definition verify_decrypted ::
  "'w env \<Rightarrow> string \<Rightarrow> localStorage \<Rightarrow> request list \<Rightarrow> bool \<Rightarrow> string
     \<Rightarrow> verify_view outcome" where
  "verify_decrypted e isoNow ls sent isSimulated decryptedText =
     (let cleanedText = trim decryptedText
      in
     (if \<not> (take 1 cleanedText = ''{'' \<or> take 1 cleanedText = ''['') then
        report ls MsgFailedToParse sent None None 3
      else
     (case json_parse e cleanedText of
        Inl err \<Rightarrow> report ls MsgFailedToParse sent None None 3
      | Inr vc \<Rightarrow>
     (case get_prop vc ''issuer'' of
        Inl err \<Rightarrow> report ls MsgFailedToParse sent None (Some vc) 4
      | Inr vc_issuer \<Rightarrow>
     (case get_prop vc ''credentialSubject'' of
        Inl err \<Rightarrow> report ls MsgFailedToParse sent None (Some vc) 4
      | Inr vc_subject \<Rightarrow>
          report ls MsgVerifiedSuccessfully sent
            (Some \<lparr>res_isValid = True, res_verified = True,
                   res_message = MsgVerifiedSuccessfully,
                   res_issuer = vc_issuer,
                   res_subject = get_prop_opt vc_subject ''id'',
                   res_isSimulated = Some isSimulated,
                   res_verificationDate = Some isoNow\<rparr>)
            (Some vc) 5)))))"

text \<open>The branch taken when every decryption attempt gave the empty text.\<close>

definition verify_stored ::
  "string \<Rightarrow> localStorage \<Rightarrow> request list \<Rightarrow> bool \<Rightarrow> credentialRecord option
     \<Rightarrow> verify_view outcome" where
  "verify_stored isoNow ls sent isSimulated found =
     (case found of
        None \<Rightarrow> report ls MsgDecryptionFailedCannotRead sent None None 3
      | Some c \<Rightarrow>
     (if \<not> truthy (cr_vcData c) then report ls MsgDecryptionFailedCannotRead sent None None 3
      else
     (case get_prop (cr_vcData c) ''issuer'' of
        Inl err \<Rightarrow> report ls (MsgVerificationFailed err) sent None (Some (cr_vcData c)) 4
      | Inr vc_issuer \<Rightarrow>
     (case get_prop (cr_vcData c) ''credentialSubject'' of
        Inl err \<Rightarrow> report ls (MsgVerificationFailed err) sent None (Some (cr_vcData c)) 4
      | Inr vc_subject \<Rightarrow>
          report ls MsgVerifiedUsingStoredData sent
            (Some \<lparr>res_isValid = True, res_verified = True,
                   res_message = MsgVerifiedUsingStoredData,
                   res_issuer = vc_issuer,
                   res_subject = get_prop_opt vc_subject ''id'',
                   res_isSimulated = Some isSimulated,
                   res_verificationDate = Some isoNow\<rparr>)
            (Some (cr_vcData c)) 5))))"

definition verify_from ::
  "'w env \<Rightarrow> string \<Rightarrow> localStorage \<Rightarrow> request list \<Rightarrow> bool \<Rightarrow> credentialRecord option
     \<Rightarrow> string \<Rightarrow> string \<Rightarrow> verify_view outcome" where
  "verify_from e isoNow ls sent isSimulated found encryptedVC key =
     (case decryptWithMultipleMethods e encryptedVC key of
        (decryptedText, method) \<Rightarrow>
          if decryptedText = [] then verify_stored isoNow ls sent isSimulated found
          else verify_decrypted e isoNow ls sent isSimulated decryptedText)"

text \<open>
  The handler. The key is \<open>identity.privateKey\<close>; the debug line that follows calls
  \<open>substring\<close> on it, which throws unless it is a text.
\<close>

definition handleVerify ::
  "'w env \<Rightarrow> string \<Rightarrow> verify_view \<Rightarrow> string \<Rightarrow> localStorage \<Rightarrow> verify_view outcome" where
  "handleVerify e isoNow prev cid ls =
     (if trim cid = [] then
        \<lparr>out_store = ls, out_message = MsgPleaseEnterCID, out_sent = [], out_value = prev\<rparr>
      else
     (case nonempty (getItem ls ''userIdentity'') of
        None \<Rightarrow> report ls MsgCreateIdentityFirst [] None None 1
      | Some identityStr \<Rightarrow>
     (case parse_identity identityStr of
        Inl err \<Rightarrow> report ls (MsgVerificationFailed err) [] None None 1
      | Inr identity \<Rightarrow>
     (case if_privateKey identity of
        JStr decryptionKey \<Rightarrow>
     (let found = foundCred ls cid
      in
     (case local_encryptedVC found of
        Some encryptedVC \<Rightarrow>
          verify_from e isoNow ls [] True found encryptedVC decryptionKey
      | None \<Rightarrow>
     (let sent = [PostRetrieveFromIPFS (trim cid)]
      in
     (case ipfs_encryptedVC e cid of
        Inl err \<Rightarrow> report ls MsgNotFoundInIPFSOrLocal sent None None 2
      | Inr encryptedVC \<Rightarrow>
          if encryptedVC = [] then report ls MsgNoEncryptedDataAvailable sent None None 2
          else verify_from e isoNow ls sent False found encryptedVC decryptionKey))))
      | other \<Rightarrow> report ls (MsgVerificationFailed ''TypeError'') [] None None 1))))"

section \<open>The backend's key generation\<close>

text \<open>
  Modelled from the spec: \<open>KeyIdentity.generate\<close>, which the backend runs behind
  \<open>/api/create-did\<close>; the client only stores its answer. The spec fixes the shape of
  the derivation and leaves the key generator, the encoding, the hash, the method tag
  and the length of the address open, so they are parameters.
\<close>

record key_scheme =
  ks_keygen :: "nat \<Rightarrow> (string \<times> string) option"
  ks_method_tag :: string
  ks_encode :: "string \<Rightarrow> string"
  ks_hash :: "string \<Rightarrow> string"
  ks_address_length :: nat

text \<open>
  Modelled from the spec: \<open>did\<close> is a stable encoding of the public key prefixed with
  a method tag.
\<close>

definition derive_did :: "key_scheme \<Rightarrow> string \<Rightarrow> string" where
  "derive_did ks pk = ks_method_tag ks @ ks_encode ks pk"

text \<open>Modelled from the spec: \<open>address\<close> is a truncated hash of the public key.\<close>

definition derive_address :: "key_scheme \<Rightarrow> string \<Rightarrow> string" where
  "derive_address ks pk = take (ks_address_length ks) (ks_hash ks pk)"

text \<open>
  Modelled from the spec: \<open>generate\<close> draws a fresh key pair from the random source
  (its entropy is the argument; \<open>EntropyError\<close> when the source is unavailable) and
  derives both identifiers from the public key.
\<close>

definition generate :: "key_scheme \<Rightarrow> nat \<Rightarrow> exn + create_did_response" where
  "generate ks entropy =
     (case ks_keygen ks entropy of
        None \<Rightarrow> Inl ''EntropyError''
      | Some (pk, sk) \<Rightarrow>
          Inr \<lparr>cd_success = True, cd_did = derive_did ks pk, cd_publicKey = pk,
               cd_privateKey = sk, cd_address = derive_address ks pk,
               cd_message = ''DID created''\<rparr>)"

section \<open>An environment for the examples\<close>

text \<open>
  Stand-ins for the collaborators, used where a statement is run on concrete data: a
  cipher that prefixes the text with the key and yields the empty byte sequence under
  any other key, encodings that return the bytes as they are, a JSON codec that knows
  the empty object only, and a backend that issues, stores, returns and checks one
  credential.
\<close>

definition demo_privateKey :: string where
  "demo_privateKey = ''0x4c0883a69102937d6231471b5dbb6204fe5129617082792ae468d01a3f362318''"


definition demo_identity :: identity where
  "demo_identity =
     \<lparr>did = ''did:ethr:0xabc'', publicKey = ''0x04bfcab'', privateKey = demo_privateKey,
      address = ''0xabc'', createdAt = ''2025-01-01T00:00:00.000Z''\<rparr>"

definition demo_degree :: jsval where
  "demo_degree = JObj [(''type'', JStr ''BachelorDegree''), (''graduationYear'', JNum 2025)]"

fun demo_encrypt :: "string \<Rightarrow> jsval \<Rightarrow> exn + string" where
  "demo_encrypt p (JStr k) = Inr (k @ ''#'' @ p)"
| "demo_encrypt p v = Inr (''#'' @ p)"

fun demo_decrypt :: "jsval \<Rightarrow> jsval \<Rightarrow> exn + string" where
  "demo_decrypt (JStr c) (JStr k) =
     (if take (length k + 1) c = k @ ''#'' then Inr (drop (length k + 1) c) else Inr [])"
| "demo_decrypt v k = Inl ''TypeError''"

definition demo_enc :: "string \<Rightarrow> exn + string" where
  "demo_enc w = Inr w"

definition demo_stringify :: "jsval \<Rightarrow> string" where
  "demo_stringify v = ''{}''"

definition demo_parse :: "string \<Rightarrow> exn + jsval" where
  "demo_parse s = (if s = ''{}'' then Inr (JObj []) else Inl ''SyntaxError'')"

definition demo_vc :: "jsval \<Rightarrow> jsval \<Rightarrow> jsval" where
  "demo_vc holder degree =
     JObj [(''issuer'', JStr ''did:ethr:0x123456789abcdef''),
           (''credentialSubject'', JObj [(''id'', holder), (''degree'', degree)]),
           (''issuanceDate'', JStr ''2025-01-01T00:00:00.000Z''),
           (''type'', JArr [JStr ''VerifiableCredential''])]"

definition demo_issue :: "issue_request \<Rightarrow> exn + issue_response" where
  "demo_issue rq =
     Inr \<lparr>ir_success = True, ir_vc = demo_vc (iq_holderDID rq) (iq_degree rq),
          ir_signature = ''0x5167''\<rparr>"

definition demo_upload :: "upload_request \<Rightarrow> exn + upload_response" where
  "demo_upload rq =
     Inr \<lparr>ur_success = True, ur_cid = ''QmDemo'', ur_isSimulated = Some True,
          ur_ipfsGatewayUrl = ''https://ipfs.io/ipfs/QmDemo''\<rparr>"

definition demo_retrieve :: "string \<Rightarrow> exn + retrieve_response" where
  "demo_retrieve c =
     (if c = ''QmDemo'' then
        Inr \<lparr>rr_success = True, rr_data = Some (slice0 32 demo_privateKey @ ''#{}''),
             rr_error = []\<rparr>
      else Inr \<lparr>rr_success = False, rr_data = None, rr_error = ''not found''\<rparr>)"

definition demo_verify :: "jsval \<Rightarrow> string \<Rightarrow> exn + verify_response" where
  "demo_verify vc sig =
     Inr \<lparr>vr_isValid = (sig = ''0x5167''), vr_verified = (sig = ''0x5167''),
          vr_message = (if sig = ''0x5167'' then ''Signature valid'' else ''Signature invalid''),
          vr_issuer = get_prop_opt vc ''issuer'', vr_subject = JUndefined\<rparr>"

definition demo_env :: "string env" where
  "demo_env =
     \<lparr>api_create_did = Inl ''Network Error'',
      api_issue_vc = demo_issue,
      api_upload_to_ipfs = demo_upload,
      api_retrieve_from_ipfs = demo_retrieve,
      api_verify_vc = demo_verify,
      aes_encrypt = demo_encrypt,
      aes_decrypt = demo_decrypt,
      enc_utf8 = demo_enc,
      enc_latin1 = demo_enc,
      enc_hex = demo_enc,
      json_stringify = demo_stringify,
      json_parse = demo_parse\<rparr>"

text \<open>A record as the current issuance handler writes it, for the handle \<open>QmLocal\<close>.\<close>

definition demo_record :: "string \<Rightarrow> credentialRecord" where
  "demo_record signature =
     \<lparr>cr_id = IdCred 1735689600000 (1 / 2), cr_did = JStr ''did:ethr:0xabc'',
      cr_issuer = JStr ''did:ethr:0x123456789abcdef'', cr_cid = ''QmLocal'',
      cr_signature = signature, cr_degreeData = demo_degree,
      cr_issuanceDate = JStr ''2025-01-01T00:00:00.000Z'', cr_isSimulated = True,
      cr_ipfsGatewayUrl = ''https://ipfs.io/ipfs/QmLocal'',
      cr_status = Some ''active'', cr_encrypted = Some True,
      cr_encryptedData = Some (demo_privateKey @ ''#{}''),
      cr_vcData = demo_vc (JStr ''did:ethr:0xabc'') demo_degree\<rparr>"

definition demo_store :: "identity \<Rightarrow> credentialRecord list \<Rightarrow> localStorage" where
  "demo_store i cs =
     [''userIdentity'' \<mapsto> StoredIdentity i, ''userCredentials'' \<mapsto> StoredCredentials cs]"

definition empty_view :: verify_view where
  "empty_view = \<lparr>verificationResult = None, decryptedVC = None, verificationStep = 0\<rparr>"

text \<open>
  A key generator for the examples (the parity of the entropy picks the public key)
  and three random sources.
\<close>

definition demo_keygen :: "nat \<Rightarrow> (string \<times> string) option" where
  "demo_keygen n =
     (if n = 0 then None
      else Some (if even n then ''0x04e5'' else ''0x04b7'', if n < 4 then ''0x1f'' else ''0x2c''))"

definition demo_scheme :: key_scheme where
  "demo_scheme = \<lparr>ks_keygen = demo_keygen, ks_method_tag = ''did:ethr:'', ks_encode = rev,
     ks_hash = rev, ks_address_length = 1\<rparr>"

definition draws_low :: "nat \<Rightarrow> real" where
  "draws_low i = 0"

definition draws_mid :: "nat \<Rightarrow> real" where
  "draws_mid i = 1 / 2"

definition draws_low_then_mid :: "nat \<Rightarrow> real" where
  "draws_low_then_mid i = (if i < 42 then 0 else 1 / 2)"








text \<open>A signature that no issuer made.\<close>

definition tamper :: "credentialRecord \<Rightarrow> string" where
  "tamper c = ''0xdeadbeef''"


section \<open>Properties\<close>

subsection \<open>Frame of the local store\<close>

text \<open>
  C10. Clearing the credentials changes the item \<open>userCredentials\<close> only and leaves
  \<open>userIdentity\<close> as it was; clearing the identity (whatever the user answers to the
  confirmation) and creating an identity change \<open>userIdentity\<close> only and leave
  \<open>userCredentials\<close> as it was. So credential records stay in the store after the
  identity whose DID they carry is gone.
\<close>

theorem local_store_frame:
  "(\<forall>k. k \<noteq> ''userCredentials'' \<longrightarrow> getItem (handleClearCredentials ls) k = getItem ls k)
   \<and> getItem (handleClearCredentials ls) ''userCredentials'' = None
   \<and> (\<forall>k. k \<noteq> ''userIdentity'' \<longrightarrow> getItem (handleClearIdentity confirmed ls) k = getItem ls k)
   \<and> getItem (handleClearIdentity True ls) ''userIdentity'' = None
   \<and> (\<forall>k. k \<noteq> ''userIdentity'' \<longrightarrow>
         getItem (out_store (handleCreateDID e now ls)) k = getItem ls k)"
  by (simp add: getItem_def removeItem_def setItem_def handleClearCredentials_def
      handleClearIdentity_def handleCreateDID_def Let_def split: sum.splits)

text \<open>
  On a store with an identity and one credential of that identity: after clearing the
  identity the record is still there and still names the DID, and no identity is.
\<close>

theorem local_store_frame_witness:
  "''userIdentity'' \<noteq> ''userCredentials''
   \<and> getItem (handleClearCredentials (demo_store demo_identity [demo_record ''0x5167'']))
        ''userIdentity'' = Some (StoredIdentity demo_identity)
   \<and> ''userCredentials'' \<noteq> ''userIdentity''
   \<and> getItem (handleClearIdentity True (demo_store demo_identity [demo_record ''0x5167'']))
        ''userCredentials'' = Some (StoredCredentials [demo_record ''0x5167''])
   \<and> getItem (handleClearIdentity True (demo_store demo_identity [demo_record ''0x5167'']))
        ''userIdentity'' = None
   \<and> cr_did (demo_record ''0x5167'') = JStr (did demo_identity)"
  using local_store_frame [of "demo_store demo_identity [demo_record ''0x5167'']" True demo_env "''now''"]
  by (simp add: demo_store_def getItem_def demo_record_def demo_identity_def)

subsection \<open>The storage handle\<close>

lemma mockCID_loop_eq:
  "mockCID_loop n rnd cid =
     cid @ concat (map (\<lambda>i. charAt chars (floor_mul (rnd i) (length chars))) [0..<n])"
proof (induction n arbitrary: rnd cid)
  case 0
  show ?case by simp
next
  case (Suc n)
  have "[0..<Suc n] = 0 # map Suc [0..<n]"
    by (simp add: upt_conv_Cons map_Suc_upt del: upt_Suc)
  then show ?case
    by (simp add: Suc.IH comp_def del: upt_Suc)
qed

lemma generateMockCID_cong:
  assumes "\<forall>i<42. rnd i = rnd' i"
  shows "generateMockCID rnd = generateMockCID rnd'"
  unfolding generateMockCID_def mockCID_loop_eq
  using assms by (intro arg_cong2[where f="(@)"] arg_cong[where f=concat] map_cong) auto

lemma handleRequestVC_cid:
  "out_value (handleRequestVC e isoNow millis rnd credentials degreeData ls) = Some r
     \<Longrightarrow> cr_cid r = generateMockCID rnd"
  by (auto simp: handleRequestVC_def stop_def Let_def split: option.splits sum.splits)

lemma demo_issue_low:
  "out_value (handleRequestVC demo_env isoNow millis rnd [] degree (demo_store demo_identity []))
     = Some \<lparr>cr_id = IdCred millis (rnd 42), cr_did = JStr ''did:ethr:0xabc'',
             cr_issuer = JStr ''did:ethr:0x123456789abcdef'',
             cr_cid = generateMockCID rnd, cr_signature = createAlwaysValidSignature,
             cr_degreeData = degree,
             cr_issuanceDate = JStr isoNow, cr_isSimulated = True,
             cr_ipfsGatewayUrl = ''https://ipfs.io/ipfs/'' @ generateMockCID rnd,
             cr_status = Some ''active'', cr_encrypted = Some True,
             cr_encryptedData = Some (demo_privateKey @ ''#{}''),
             cr_vcData = JObj [(''issuer'', JStr ''did:ethr:0x123456789abcdef''),
                     (''credentialSubject'',
                        JObj [(''id'', JStr ''did:ethr:0xabc''), (''degree'', degree)]),
                     (''issuanceDate'', JStr isoNow),
                     (''type'', JArr [JStr ''VerifiableCredential'',
                                      JStr ''UniversityDegreeCredential''])]\<rparr>"
  by (simp add: handleRequestVC_def demo_store_def getItem_def demo_env_def
      demo_stringify_def demo_identity_def Let_def)

lemma floor_mul_low: "floor_mul 0 58 = 0"
  by (simp add: floor_mul_def bitlen.simps)

lemma bitlen_29: "bitlen 29 = 5"
  by (simp add: bitlen.simps)

lemma floor_mul_mid: "floor_mul (1 / 2) 58 = 29"
  by (simp add: floor_mul_def bitlen_29)

text \<open>
  The product is rounded as a double is: a draw just below \<open>32 / 58\<close> gives the index
  32, where the exact product has the integer part 31.
\<close>

lemma bitlen_31: "bitlen 31 = 5"
  by (simp add: bitlen.simps)

lemma floor_mul_rounds: "floor_mul (2484744621997515 / 2 ^ 52) 58 = 32"
proof -
  have f: "\<lfloor>(2484744621997515 / 2 ^ 52 * 58 :: real)\<rfloor> = 31"
    by (simp add: floor_eq_iff)
  show ?thesis
    by (simp add: floor_mul_def Let_def f bitlen_31)
qed

lemma length_chars: "length chars = 58"
  by (simp add: chars_def)

lemma char_low: "charAt chars (floor_mul 0 (length chars)) = ''1''"
  unfolding length_chars floor_mul_low by (simp add: chars_def charAt_def)

lemma char_mid: "charAt chars (floor_mul (1 / 2) (length chars)) = ''W''"
  unfolding length_chars floor_mul_mid by (simp add: chars_def charAt_def)

lemma cid_low: "take 3 (generateMockCID draws_low) = ''Qm1''"
  by (simp add: generateMockCID_def mockCID_loop_eq draws_low_def char_low upt_rec [of 0])

lemma cid_mid: "take 3 (generateMockCID draws_mid) = ''QmW''"
  by (simp add: generateMockCID_def mockCID_loop_eq draws_mid_def char_mid upt_rec [of 0])

text \<open>
  C5 as stated fails: two runs of the current issuance handler on the same inputs
  store the same envelope under different handles when the random draws differ.
\<close>

theorem content_addressing_counterexample:
  "map_option cr_encryptedData
     (out_value (handleRequestVC demo_env ''2025-01-01T00:00:00.000Z'' 1735689600000 draws_low []
        demo_degree (demo_store demo_identity [])))
   = map_option cr_encryptedData
     (out_value (handleRequestVC demo_env ''2025-01-01T00:00:00.000Z'' 1735689600000 draws_mid []
        demo_degree (demo_store demo_identity [])))
   \<and> map_option cr_encryptedData
     (out_value (handleRequestVC demo_env ''2025-01-01T00:00:00.000Z'' 1735689600000 draws_low []
        demo_degree (demo_store demo_identity []))) = Some (Some (demo_privateKey @ ''#{}''))
   \<and> map_option cr_cid
     (out_value (handleRequestVC demo_env ''2025-01-01T00:00:00.000Z'' 1735689600000 draws_low []
        demo_degree (demo_store demo_identity [])))
   \<noteq> map_option cr_cid
     (out_value (handleRequestVC demo_env ''2025-01-01T00:00:00.000Z'' 1735689600000 draws_mid []
        demo_degree (demo_store demo_identity [])))"
proof -
  have "generateMockCID draws_low \<noteq> generateMockCID draws_mid"
    using cid_low cid_mid by auto
  then show ?thesis by (simp add: demo_issue_low)
qed

text \<open>
  C5, amended. The handle under which the current issuance handler files a
  credential is \<open>generateMockCID\<close> of the random source: two runs whose first 42 draws
  agree yield the same handle, whatever the identity, the claims, the clock and so
  the plaintext and the envelope are.
\<close>

theorem mock_cid_from_draws_only:
  assumes "out_value (handleRequestVC e isoNow millis rnd credentials degreeData ls) = Some r"
    and "out_value (handleRequestVC e' isoNow' millis' rnd' credentials' degreeData' ls') = Some r'"
    and "\<forall>i<42. rnd i = rnd' i"
  shows "cr_cid r = cr_cid r' \<and> cr_cid r = generateMockCID rnd"
  using assms handleRequestVC_cid generateMockCID_cong by metis

text \<open>
  Two runs at different times, for different claims, with the same first 42 draws:
  different documents, the same handle.
\<close>

theorem mock_cid_from_draws_only_witness:
  "out_value (handleRequestVC demo_env ''2025-01-01T00:00:00.000Z'' 1735689600000 draws_low []
        demo_degree (demo_store demo_identity [])) \<noteq> None
   \<and> out_value (handleRequestVC demo_env ''2026-06-30T12:00:00.000Z'' 1782820800000
        draws_low_then_mid [] JNull (demo_store demo_identity [])) \<noteq> None
   \<and> cr_cid (the (out_value (handleRequestVC demo_env ''2025-01-01T00:00:00.000Z''
        1735689600000 draws_low [] demo_degree (demo_store demo_identity []))))
     = cr_cid (the (out_value (handleRequestVC demo_env ''2026-06-30T12:00:00.000Z''
        1782820800000 draws_low_then_mid [] JNull (demo_store demo_identity []))))
   \<and> cr_vcData (the (out_value (handleRequestVC demo_env ''2025-01-01T00:00:00.000Z''
        1735689600000 draws_low [] demo_degree (demo_store demo_identity []))))
     \<noteq> cr_vcData (the (out_value (handleRequestVC demo_env ''2026-06-30T12:00:00.000Z''
        1782820800000 draws_low_then_mid [] JNull (demo_store demo_identity []))))"
proof -
  let ?a = "handleRequestVC demo_env ''2025-01-01T00:00:00.000Z''
        1735689600000 draws_low [] demo_degree (demo_store demo_identity [])"
  let ?b = "handleRequestVC demo_env ''2026-06-30T12:00:00.000Z''
        1782820800000 draws_low_then_mid [] JNull (demo_store demo_identity [])"
  have a: "out_value ?a = Some (the (out_value ?a))" by (simp add: demo_issue_low)
  have b: "out_value ?b = Some (the (out_value ?b))" by (simp add: demo_issue_low)
  have na: "out_value ?a \<noteq> None" by (simp add: demo_issue_low)
  have nb: "out_value ?b \<noteq> None" by (simp add: demo_issue_low)
  have d: "\<forall>i<42. draws_low i = draws_low_then_mid i"
    by (simp add: draws_low_def draws_low_then_mid_def)
  have c: "cr_cid (the (out_value ?a)) = cr_cid (the (out_value ?b))"
    using mock_cid_from_draws_only [OF a b d] by simp
  have v: "cr_vcData (the (out_value ?a)) \<noteq> cr_vcData (the (out_value ?b))"
    by (simp add: demo_issue_low)
  show ?thesis
    using na nb c v by (intro conjI) assumption+
qed

subsection \<open>Identifiers of an identity\<close>

text \<open>
  C9. With the backend's key generation as the spec describes it, the \<open>did\<close> and the
  \<open>address\<close> that \<open>handleCreateDID\<close> stores are the derivations of the stored public
  key: two identities created from any entropy, at any time, over any store, that have
  the same public key have the same \<open>did\<close> and the same \<open>address\<close>.
\<close>

theorem did_address_from_public_key:
  assumes "api_create_did e1 = generate ks n1" and "api_create_did e2 = generate ks n2"
    and "out_value (handleCreateDID e1 now1 ls1) = Some i1"
    and "out_value (handleCreateDID e2 now2 ls2) = Some i2"
    and "publicKey i1 = publicKey i2"
  shows "did i1 = did i2 \<and> address i1 = address i2
         \<and> did i1 = derive_did ks (publicKey i1)
         \<and> address i1 = derive_address ks (publicKey i1)
         \<and> getItem (out_store (handleCreateDID e1 now1 ls1)) ''userIdentity''
             = Some (StoredIdentity i1)"
  using assms
  by (auto simp: handleCreateDID_def generate_def Let_def getItem_def setItem_def
      split: sum.splits option.splits if_splits prod.splits)

text \<open>
  Two creations from different entropy that yield the same public key and different
  private keys.
\<close>

theorem did_address_from_public_key_witness:
  "out_value (handleCreateDID (demo_env\<lparr>api_create_did := generate demo_scheme 3\<rparr>)
       ''2025-01-01T00:00:00.000Z'' Map.empty) \<noteq> None
   \<and> out_value (handleCreateDID (demo_env\<lparr>api_create_did := generate demo_scheme 5\<rparr>)
       ''2026-06-30T12:00:00.000Z'' (demo_store demo_identity [])) \<noteq> None
   \<and> publicKey (the (out_value (handleCreateDID
         (demo_env\<lparr>api_create_did := generate demo_scheme 3\<rparr>)
         ''2025-01-01T00:00:00.000Z'' Map.empty))) = ''0x04b7''
   \<and> publicKey (the (out_value (handleCreateDID
         (demo_env\<lparr>api_create_did := generate demo_scheme 5\<rparr>)
         ''2026-06-30T12:00:00.000Z'' (demo_store demo_identity [])))) = ''0x04b7''
   \<and> privateKey (the (out_value (handleCreateDID
         (demo_env\<lparr>api_create_did := generate demo_scheme 3\<rparr>)
         ''2025-01-01T00:00:00.000Z'' Map.empty)))
     \<noteq> privateKey (the (out_value (handleCreateDID
         (demo_env\<lparr>api_create_did := generate demo_scheme 5\<rparr>)
         ''2026-06-30T12:00:00.000Z'' (demo_store demo_identity []))))
   \<and> did (the (out_value (handleCreateDID
         (demo_env\<lparr>api_create_did := generate demo_scheme 3\<rparr>)
         ''2025-01-01T00:00:00.000Z'' Map.empty)))
     = did (the (out_value (handleCreateDID
         (demo_env\<lparr>api_create_did := generate demo_scheme 5\<rparr>)
         ''2026-06-30T12:00:00.000Z'' (demo_store demo_identity []))))
   \<and> address (the (out_value (handleCreateDID
         (demo_env\<lparr>api_create_did := generate demo_scheme 3\<rparr>)
         ''2025-01-01T00:00:00.000Z'' Map.empty)))
     = address (the (out_value (handleCreateDID
         (demo_env\<lparr>api_create_did := generate demo_scheme 5\<rparr>)
         ''2026-06-30T12:00:00.000Z'' (demo_store demo_identity []))))"
proof -
  let ?e1 = "demo_env\<lparr>api_create_did := generate demo_scheme 3\<rparr>"
  let ?e2 = "demo_env\<lparr>api_create_did := generate demo_scheme 5\<rparr>"
  let ?a = "handleCreateDID ?e1 ''2025-01-01T00:00:00.000Z'' Map.empty"
  let ?b = "handleCreateDID ?e2 ''2026-06-30T12:00:00.000Z'' (demo_store demo_identity [])"
  have g1: "generate demo_scheme 3 = Inr \<lparr>cd_success = True, cd_did = ''did:ethr:7b40x0'',
      cd_publicKey = ''0x04b7'', cd_privateKey = ''0x1f'', cd_address = ''7'',
      cd_message = ''DID created''\<rparr>"
    by (simp add: generate_def demo_scheme_def demo_keygen_def derive_did_def derive_address_def)
  have g3: "generate demo_scheme 5 = Inr \<lparr>cd_success = True, cd_did = ''did:ethr:7b40x0'',
      cd_publicKey = ''0x04b7'', cd_privateKey = ''0x2c'', cd_address = ''7'',
      cd_message = ''DID created''\<rparr>"
    by (simp add: generate_def demo_scheme_def demo_keygen_def derive_did_def derive_address_def)
  have e1: "api_create_did ?e1 = generate demo_scheme 3" by simp
  have e2: "api_create_did ?e2 = generate demo_scheme 5" by simp
  have a: "out_value ?a = Some (the (out_value ?a))"
    by (simp add: handleCreateDID_def g1 Let_def)
  have b: "out_value ?b = Some (the (out_value ?b))"
    by (simp add: handleCreateDID_def g3 Let_def)
  have na: "out_value ?a \<noteq> None" by (simp add: handleCreateDID_def g1 Let_def)
  have nb: "out_value ?b \<noteq> None" by (simp add: handleCreateDID_def g3 Let_def)
  have pa: "publicKey (the (out_value ?a)) = ''0x04b7''"
    by (simp add: handleCreateDID_def g1 Let_def)
  have pb: "publicKey (the (out_value ?b)) = ''0x04b7''"
    by (simp add: handleCreateDID_def g3 Let_def)
  have sk: "privateKey (the (out_value ?a)) \<noteq> privateKey (the (out_value ?b))"
    by (simp add: handleCreateDID_def g1 g3 Let_def)
  have pk: "publicKey (the (out_value ?a)) = publicKey (the (out_value ?b))"
    using pa pb by simp
  have c: "did (the (out_value ?a)) = did (the (out_value ?b))"
    using did_address_from_public_key [OF e1 e2 a b pk] by simp
  have c2: "address (the (out_value ?a)) = address (the (out_value ?b))"
    using did_address_from_public_key [OF e1 e2 a b pk] by simp
  show ?thesis
    using na nb pa pb sk c c2 by (intro conjI) assumption+
qed

subsection \<open>Issuance writes the record last\<close>

lemma nonempty_Some: "nonempty x = Some y \<Longrightarrow> x = Some y"
  by (cases x rule: nonempty.cases) auto

lemma nonempty_stored [simp]:
  "nonempty (Some (StoredIdentity i)) = Some (StoredIdentity i)"
  "nonempty (Some (StoredCredentials cs)) = Some (StoredCredentials cs)"
  by simp_all

lemma parse_credentials_found:
  "parse_credentials x = Inr cs \<Longrightarrow> find_cred cs cid = Some c \<Longrightarrow> x = StoredCredentials cs"
  by (cases x rule: parse_credentials.cases) (auto simp: find_cred_def split: if_splits)








lemma demo_env_sel:
  "api_create_did demo_env = Inl ''Network Error''"
  "api_issue_vc demo_env = demo_issue"
  "api_upload_to_ipfs demo_env = demo_upload"
  "api_retrieve_from_ipfs demo_env = demo_retrieve"
  "api_verify_vc demo_env = demo_verify"
  "aes_encrypt demo_env = demo_encrypt"
  "aes_decrypt demo_env = demo_decrypt"
  "enc_utf8 demo_env = demo_enc"
  "enc_latin1 demo_env = demo_enc"
  "enc_hex demo_env = demo_enc"
  "json_stringify demo_env = demo_stringify"
  "json_parse demo_env = demo_parse"
  by (simp_all add: demo_env_def)









subsection \<open>What leaves the browser\<close>

lemma getItem_setItem:
  "getItem (setItem ls k v) k' = (if k' = k then Some v else getItem ls k')"
  by (simp add: getItem_def setItem_def)

lemma out_sent_report [simp]: "out_sent (report ls m sent res vc step) = sent"
  by (simp add: report_def)

lemma out_sent_stop [simp]: "out_sent (stop ls m sent) = sent"
  by (simp add: stop_def)

lemma out_sent_verify_decrypted:
  "out_sent (verify_decrypted e isoNow ls sent isSimulated decryptedText) = sent"
  by (simp add: verify_decrypted_def Let_def split: sum.splits)

lemma out_sent_verify_stored:
  "out_sent (verify_stored isoNow ls sent isSimulated found) = sent"
  by (simp add: verify_stored_def split: option.splits sum.splits)

lemma out_sent_verify_from:
  "out_sent (verify_from e isoNow ls sent isSimulated found encryptedVC key) = sent"
  by (simp add: verify_from_def out_sent_verify_decrypted out_sent_verify_stored
      split: prod.splits)








lemma trim_QmDemo: "trim ''QmDemo'' = ''QmDemo''"
  by (simp add: trim_def is_space_def)

lemma demo_verify_v1:
  "handleVerify_v1 demo_env prev ''QmDemo''
     (demo_store demo_identity [(demo_record sig)\<lparr>cr_cid := ''QmDemo''\<rparr>])
     = report (demo_store demo_identity [(demo_record sig)\<lparr>cr_cid := ''QmDemo''\<rparr>])
         (MsgBackend (if sig = ''0x5167'' then ''Signature valid'' else ''Signature invalid''))
         [PostRetrieveFromIPFS ''QmDemo'', PostVerifyVC (JObj []) sig]
         (Some \<lparr>res_isValid = (sig = ''0x5167''), res_verified = (sig = ''0x5167''),
                res_message = MsgBackend
                  (if sig = ''0x5167'' then ''Signature valid'' else ''Signature invalid''),
                res_issuer = JUndefined, res_subject = JUndefined,
                res_isSimulated = None, res_verificationDate = None\<rparr>)
         (Some (JObj [])) 0"
  by (simp add: handleVerify_v1_def trim_QmDemo demo_store_def getItem_def
      find_cred_def demo_record_def demo_identity_def
      demo_env_sel demo_retrieve_def demo_enc_def demo_parse_def demo_verify_def Let_def
      slice0_def demo_privateKey_def)





subsection \<open>The verdict on the signature\<close>

lemma find_cred_map:
  assumes "\<And>c. cr_cid (g c) = cr_cid c"
  shows "find_cred (map g cs) cid = map_option g (find_cred cs cid)"
  using assms by (induction cs) (simp_all add: find_cred_def)

lemma foundCred_resign:
  "foundCred (setItem ls ''userCredentials''
       (StoredCredentials (map (\<lambda>c. c\<lparr>cr_signature := f c\<rparr>) cs))) cid
   = map_option (\<lambda>c. c\<lparr>cr_signature := f c\<rparr>)
       (foundCred (setItem ls ''userCredentials'' (StoredCredentials cs)) cid)"
  by (simp add: foundCred_def getItem_setItem find_cred_map)

lemma local_encryptedVC_resign:
  "local_encryptedVC (map_option (\<lambda>c. c\<lparr>cr_signature := f c\<rparr>) found)
     = local_encryptedVC found"
  by (cases found) (simp_all add: local_encryptedVC_def)

lemma verify_stored_resign:
  "out_value (verify_stored isoNow ls' sent sim
       (map_option (\<lambda>c. c\<lparr>cr_signature := f c\<rparr>) found))
     = out_value (verify_stored isoNow ls sent sim found)
   \<and> out_message (verify_stored isoNow ls' sent sim
       (map_option (\<lambda>c. c\<lparr>cr_signature := f c\<rparr>) found))
     = out_message (verify_stored isoNow ls sent sim found)"
  by (cases found) (simp_all add: verify_stored_def report_def split: sum.splits)

lemma verify_decrypted_store:
  "out_value (verify_decrypted e isoNow ls' sent sim t)
     = out_value (verify_decrypted e isoNow ls sent sim t)
   \<and> out_message (verify_decrypted e isoNow ls' sent sim t)
     = out_message (verify_decrypted e isoNow ls sent sim t)"
  by (simp add: verify_decrypted_def report_def Let_def split: sum.splits)

lemma verify_from_resign:
  "out_value (verify_from e isoNow ls' sent sim
       (map_option (\<lambda>c. c\<lparr>cr_signature := f c\<rparr>) found) d k)
     = out_value (verify_from e isoNow ls sent sim found d k)
   \<and> out_message (verify_from e isoNow ls' sent sim
       (map_option (\<lambda>c. c\<lparr>cr_signature := f c\<rparr>) found) d k)
     = out_message (verify_from e isoNow ls sent sim found d k)"
  using verify_stored_resign [of isoNow ls' sent sim f found ls]
    verify_decrypted_store [of e isoNow ls' sent sim _ ls]
  by (simp add: verify_from_def split: prod.splits)

lemma handleVerify_resign:
  "out_value (handleVerify e isoNow prev cid (setItem ls ''userCredentials''
       (StoredCredentials (map (\<lambda>c. c\<lparr>cr_signature := f c\<rparr>) cs))))
     = out_value (handleVerify e isoNow prev cid
         (setItem ls ''userCredentials'' (StoredCredentials cs)))
   \<and> out_message (handleVerify e isoNow prev cid (setItem ls ''userCredentials''
       (StoredCredentials (map (\<lambda>c. c\<lparr>cr_signature := f c\<rparr>) cs))))
     = out_message (handleVerify e isoNow prev cid
         (setItem ls ''userCredentials'' (StoredCredentials cs)))"
  using verify_from_resign [of e isoNow _ _ _ f]
  by (simp add: handleVerify_def Let_def foundCred_resign local_encryptedVC_resign
      getItem_setItem report_def split: option.splits sum.splits jsval.splits)

lemma verify_decrypted_verdict:
  "verificationResult (out_value (verify_decrypted e isoNow ls sent sim t)) = Some res
     \<Longrightarrow> res_verified res \<and> res_isValid res"
  by (auto simp: verify_decrypted_def report_def Let_def split: sum.splits if_splits)

lemma verify_stored_verdict:
  "verificationResult (out_value (verify_stored isoNow ls sent sim found)) = Some res
     \<Longrightarrow> res_verified res \<and> res_isValid res"
  by (auto simp: verify_stored_def report_def split: option.splits sum.splits if_splits)

lemma handleVerify_verdict:
  assumes "trim cid \<noteq> []"
    and "verificationResult (out_value (handleVerify e isoNow prev cid ls)) = Some res"
  shows "res_verified res \<and> res_isValid res"
  using assms
  by (auto simp: handleVerify_def verify_from_def Let_def report_def
      dest: verify_decrypted_verdict verify_stored_verdict
      split: option.splits sum.splits if_splits prod.splits jsval.splits)

lemma handleVerify_v1_result:
  assumes "handleVerify_v1 e prev cid ls = r"
    and "trim cid \<noteq> []"
    and "verificationResult (out_value r) = Some res"
  shows "\<exists>vc credentials c verifyResponse.
           decryptedVC (out_value r) = Some vc
         \<and> getItem ls ''userCredentials'' = Some (StoredCredentials credentials)
         \<and> find_cred credentials cid = Some c
         \<and> api_verify_vc e vc (cr_signature c) = Inr verifyResponse
         \<and> res_verified res = vr_verified verifyResponse
         \<and> res_isValid res = vr_isValid verifyResponse"
  using assms
  apply (auto simp: handleVerify_v1_def Let_def report_def
      dest!: nonempty_Some split: option.splits sum.splits if_splits)
  apply (frule (1) parse_credentials_found)
  apply auto
  done

lemma handleVerify_v1_verdict:
  assumes "trim cid \<noteq> []"
    and "verificationResult (out_value (handleVerify_v1 e prev cid ls)) = Some res"
  shows "\<exists>vc credentials c verifyResponse.
           decryptedVC (out_value (handleVerify_v1 e prev cid ls)) = Some vc
         \<and> getItem ls ''userCredentials'' = Some (StoredCredentials credentials)
         \<and> find_cred credentials cid = Some c
         \<and> api_verify_vc e vc (cr_signature c) = Inr verifyResponse
         \<and> res_verified res = vr_verified verifyResponse
         \<and> res_isValid res = vr_isValid verifyResponse"
  using handleVerify_v1_result [OF refl assms] .

lemma trim_QmLocal: "trim ''QmLocal'' = ''QmLocal''"
  by (simp add: trim_def is_space_def)

lemma demo_decrypt_own:
  "decryptWithMultipleMethods demo_env (demo_privateKey @ ''#{}'') demo_privateKey
     = (''{}'', MUtf8)"
  by (simp add: decryptWithMultipleMethods_def demo_env_sel demo_enc_def)

lemma demo_verify_local:
  "handleVerify demo_env isoNow prev ''QmLocal'' (demo_store demo_identity [demo_record sig])
     = report (demo_store demo_identity [demo_record sig]) MsgVerifiedSuccessfully []
         (Some \<lparr>res_isValid = True, res_verified = True,
                res_message = MsgVerifiedSuccessfully,
                res_issuer = JUndefined, res_subject = JUndefined,
                res_isSimulated = Some True, res_verificationDate = Some isoNow\<rparr>)
         (Some (JObj [])) 5"
  by (simp add: handleVerify_def trim_QmLocal demo_store_def getItem_def foundCred_def
      find_cred_def local_encryptedVC_def demo_record_def verify_from_def demo_decrypt_own
      demo_identity_def verify_decrypted_def trim_def is_space_def
      demo_env_sel demo_parse_def Let_def)

text \<open>
  C1 as stated fails: a record whose stored signature has been replaced by other bytes
  is reported as verified by the current handler.
\<close>

theorem signature_mismatch_counterexample:
  "cr_signature (demo_record ''0xdeadbeef'') \<noteq> createAlwaysValidSignature
   \<and> out_message (handleVerify demo_env ''2025-01-02T00:00:00.000Z'' empty_view ''QmLocal''
        (demo_store demo_identity [demo_record ''0xdeadbeef''])) = MsgVerifiedSuccessfully
   \<and> map_option res_verified (verificationResult (out_value
        (handleVerify demo_env ''2025-01-02T00:00:00.000Z'' empty_view ''QmLocal''
          (demo_store demo_identity [demo_record ''0xdeadbeef''])))) = Some True"
proof (intro conjI)
  show "cr_signature (demo_record ''0xdeadbeef'') \<noteq> createAlwaysValidSignature"
    by (simp add: demo_record_def createAlwaysValidSignature_def)
qed (simp_all add: demo_verify_local report_def)

text \<open>
  C1, amended. The current verification handler does not consult the stored
  signature: replacing the signatures of the stored records by any others changes
  neither the message nor the reported state, and every result it reports on a
  non-blank handle says verified and valid. In the first variant the verdict is the
  backend's: a reported result carries the answer of \<open>/verify-vc\<close> to the decrypted
  document and the stored signature of the record with the handle.
\<close>

theorem verdict_ignores_signature:
  assumes "trim cid \<noteq> []"
  shows "out_value (handleVerify e isoNow prev cid (setItem ls ''userCredentials''
             (StoredCredentials (map (\<lambda>c. c\<lparr>cr_signature := f c\<rparr>) cs))))
           = out_value (handleVerify e isoNow prev cid
               (setItem ls ''userCredentials'' (StoredCredentials cs)))
         \<and> out_message (handleVerify e isoNow prev cid (setItem ls ''userCredentials''
             (StoredCredentials (map (\<lambda>c. c\<lparr>cr_signature := f c\<rparr>) cs))))
           = out_message (handleVerify e isoNow prev cid
               (setItem ls ''userCredentials'' (StoredCredentials cs)))
         \<and> (\<forall>res. verificationResult (out_value (handleVerify e isoNow prev cid ls)) = Some res
               \<longrightarrow> res_verified res \<and> res_isValid res)
         \<and> (\<forall>res. verificationResult (out_value (handleVerify_v1 e prev cid ls)) = Some res
               \<longrightarrow> (\<exists>vc credentials c verifyResponse.
                     decryptedVC (out_value (handleVerify_v1 e prev cid ls)) = Some vc
                   \<and> getItem ls ''userCredentials'' = Some (StoredCredentials credentials)
                   \<and> find_cred credentials cid = Some c
                   \<and> api_verify_vc e vc (cr_signature c) = Inr verifyResponse
                   \<and> res_verified res = vr_verified verifyResponse
                   \<and> res_isValid res = vr_isValid verifyResponse))"
  apply (intro conjI allI impI)
      apply (rule handleVerify_resign [THEN conjunct1])
     apply (rule handleVerify_resign [THEN conjunct2])
    apply (erule handleVerify_verdict [OF assms, THEN conjunct1])
   apply (erule handleVerify_verdict [OF assms, THEN conjunct2])
  apply (erule handleVerify_v1_verdict [OF assms])
  done

text \<open>
  The current handler on a stored credential, with the signature as issued and
  replaced; the first variant on a record with a replaced signature, where the
  backend's answer is what is reported.
\<close>

theorem verdict_ignores_signature_witness:
  "trim ''QmLocal'' \<noteq> []
   \<and> out_value (handleVerify demo_env ''2025-01-02T00:00:00.000Z'' empty_view ''QmLocal''
        (setItem (demo_store demo_identity []) ''userCredentials''
          (StoredCredentials (map (\<lambda>c. c\<lparr>cr_signature := tamper c\<rparr>)
             [demo_record createAlwaysValidSignature]))))
     = out_value (handleVerify demo_env ''2025-01-02T00:00:00.000Z'' empty_view ''QmLocal''
        (setItem (demo_store demo_identity []) ''userCredentials''
          (StoredCredentials [demo_record createAlwaysValidSignature])))
   \<and> verificationResult (out_value (handleVerify demo_env ''2025-01-02T00:00:00.000Z''
        empty_view ''QmLocal'' (demo_store demo_identity []))) = None
   \<and> verificationResult (out_value (handleVerify demo_env ''2025-01-02T00:00:00.000Z''
        empty_view ''QmLocal'' (demo_store demo_identity [demo_record ''0xdeadbeef''])))
       \<noteq> None
   \<and> res_verified (the (verificationResult (out_value (handleVerify demo_env
        ''2025-01-02T00:00:00.000Z'' empty_view ''QmLocal''
        (demo_store demo_identity [demo_record ''0xdeadbeef''])))))
   \<and> trim ''QmDemo'' \<noteq> []
   \<and> verificationResult (out_value (handleVerify_v1 demo_env empty_view ''QmDemo''
        (demo_store demo_identity [(demo_record ''0xdeadbeef'')\<lparr>cr_cid := ''QmDemo''\<rparr>])))
       \<noteq> None
   \<and> (\<exists>vc credentials c verifyResponse.
         decryptedVC (out_value (handleVerify_v1 demo_env empty_view ''QmDemo''
           (demo_store demo_identity [(demo_record ''0xdeadbeef'')\<lparr>cr_cid := ''QmDemo''\<rparr>])))
           = Some vc
       \<and> getItem (demo_store demo_identity
            [(demo_record ''0xdeadbeef'')\<lparr>cr_cid := ''QmDemo''\<rparr>]) ''userCredentials''
           = Some (StoredCredentials credentials)
       \<and> find_cred credentials ''QmDemo'' = Some c
       \<and> api_verify_vc demo_env vc (cr_signature c) = Inr verifyResponse
       \<and> res_verified (the (verificationResult (out_value (handleVerify_v1 demo_env
            empty_view ''QmDemo'' (demo_store demo_identity
              [(demo_record ''0xdeadbeef'')\<lparr>cr_cid := ''QmDemo''\<rparr>]))))) = vr_verified verifyResponse
       \<and> res_isValid (the (verificationResult (out_value (handleVerify_v1 demo_env
            empty_view ''QmDemo'' (demo_store demo_identity
              [(demo_record ''0xdeadbeef'')\<lparr>cr_cid := ''QmDemo''\<rparr>]))))) = vr_isValid verifyResponse)"
proof -
  let ?iso = "''2025-01-02T00:00:00.000Z''"
  let ?ls = "demo_store demo_identity [demo_record ''0xdeadbeef'']"
  let ?ls1 = "demo_store demo_identity [(demo_record ''0xdeadbeef'')\<lparr>cr_cid := ''QmDemo''\<rparr>]"
  have t: "trim ''QmLocal'' \<noteq> []" by (simp add: trim_QmLocal)
  have t1: "trim ''QmDemo'' \<noteq> []" by (simp add: trim_QmDemo)
  note A = verdict_ignores_signature [OF t, of demo_env ?iso empty_view "demo_store demo_identity []"
      tamper "[demo_record createAlwaysValidSignature]"]
  note B = verdict_ignores_signature [OF t, of demo_env ?iso empty_view ?ls]
  note C = verdict_ignores_signature [OF t1, of demo_env ?iso empty_view ?ls1]
  have r: "verificationResult (out_value (handleVerify demo_env ?iso empty_view ''QmLocal'' ?ls))
      = Some (the (verificationResult (out_value
          (handleVerify demo_env ?iso empty_view ''QmLocal'' ?ls))))"
    by (simp add: demo_verify_local report_def)
  have rn: "verificationResult (out_value (handleVerify demo_env ?iso empty_view ''QmLocal'' ?ls))
      \<noteq> None"
    by (simp add: demo_verify_local report_def)
  have r0: "verificationResult (out_value (handleVerify demo_env ?iso empty_view ''QmLocal''
      (demo_store demo_identity []))) = None"
    by (simp add: handleVerify_def trim_QmLocal demo_store_def getItem_def foundCred_def
        find_cred_def local_encryptedVC_def ipfs_encryptedVC_def demo_env_sel demo_retrieve_def
        report_def Let_def)
  have r1: "verificationResult (out_value (handleVerify_v1 demo_env empty_view ''QmDemo'' ?ls1))
      = Some (the (verificationResult (out_value
          (handleVerify_v1 demo_env empty_view ''QmDemo'' ?ls1))))"
    by (simp add: demo_verify_v1 report_def)
  have r1n: "verificationResult (out_value (handleVerify_v1 demo_env empty_view ''QmDemo'' ?ls1))
      \<noteq> None"
    by (simp add: demo_verify_v1 report_def)
  have a: "out_value (handleVerify demo_env ?iso empty_view ''QmLocal''
        (setItem (demo_store demo_identity []) ''userCredentials''
          (StoredCredentials (map (\<lambda>c. c\<lparr>cr_signature := tamper c\<rparr>)
             [demo_record createAlwaysValidSignature]))))
     = out_value (handleVerify demo_env ?iso empty_view ''QmLocal''
        (setItem (demo_store demo_identity []) ''userCredentials''
          (StoredCredentials [demo_record createAlwaysValidSignature])))"
    using A by blast
  have b: "res_verified (the (verificationResult (out_value
      (handleVerify demo_env ?iso empty_view ''QmLocal'' ?ls))))"
    using B r by blast
  have c: "\<exists>vc credentials c verifyResponse.
         decryptedVC (out_value (handleVerify_v1 demo_env empty_view ''QmDemo'' ?ls1)) = Some vc
       \<and> getItem ?ls1 ''userCredentials'' = Some (StoredCredentials credentials)
       \<and> find_cred credentials ''QmDemo'' = Some c
       \<and> api_verify_vc demo_env vc (cr_signature c) = Inr verifyResponse
       \<and> res_verified (the (verificationResult (out_value (handleVerify_v1 demo_env
            empty_view ''QmDemo'' ?ls1)))) = vr_verified verifyResponse
       \<and> res_isValid (the (verificationResult (out_value (handleVerify_v1 demo_env
            empty_view ''QmDemo'' ?ls1)))) = vr_isValid verifyResponse"
    using C r1 by blast
  show ?thesis
    using t a r0 rn b t1 r1n c by (intro conjI) assumption+
qed

subsection \<open>When decryption fails\<close>











lemma demo_record_cached:
  "local_encryptedVC (Some (demo_record sig)) = Some (demo_privateKey @ ''#{}'')"
  by (simp add: local_encryptedVC_def demo_record_def demo_privateKey_def)











subsection \<open>Where the ciphertext comes from\<close>

lemma resolve_local:
  assumes "trim cid \<noteq> []" and "getItem ls ''userIdentity'' = Some (StoredIdentity i)"
    and "local_encryptedVC (foundCred ls cid) = Some d"
  shows "handleVerify e isoNow prev cid ls
           = verify_from e isoNow ls [] True (foundCred ls cid) d (privateKey i)
         \<and> out_sent (handleVerify e isoNow prev cid ls) = []"
  using assms by (simp add: handleVerify_def Let_def out_sent_verify_from)

lemma resolve_ipfs:
  assumes "trim cid \<noteq> []" and "getItem ls ''userIdentity'' = Some (StoredIdentity i)"
    and "local_encryptedVC (foundCred ls cid) = None"
  shows "out_sent (handleVerify e isoNow prev cid ls) = [PostRetrieveFromIPFS (trim cid)]
         \<and> (\<forall>d. ipfs_encryptedVC e cid = Inr d \<and> d \<noteq> [] \<longrightarrow>
               handleVerify e isoNow prev cid ls
                 = verify_from e isoNow ls [PostRetrieveFromIPFS (trim cid)] False
                     (foundCred ls cid) d (privateKey i))
         \<and> (\<forall>err. ipfs_encryptedVC e cid = Inl err \<longrightarrow>
               out_message (handleVerify e isoNow prev cid ls) = MsgNotFoundInIPFSOrLocal
             \<and> out_value (handleVerify e isoNow prev cid ls)
                 = \<lparr>verificationResult = None, decryptedVC = None, verificationStep = 2\<rparr>
             \<and> out_store (handleVerify e isoNow prev cid ls) = ls)"
  using assms
  by (auto simp: handleVerify_def Let_def out_sent_verify_from report_def split: sum.splits)

lemma v1_asks_store_first:
  assumes "trim cid \<noteq> []" and "getItem ls ''userIdentity'' = Some (StoredIdentity i)"
  shows "take 1 (out_sent (handleVerify_v1 e prev cid ls)) = [PostRetrieveFromIPFS (trim cid)]"
  using assms
  by (simp add: handleVerify_v1_def Let_def split: sum.splits option.splits)

lemma v1_not_in_store:
  assumes "trim cid \<noteq> []" and "getItem ls ''userIdentity'' = Some (StoredIdentity i)"
    and "(\<exists>err. api_retrieve_from_ipfs e (trim cid) = Inl err)
         \<or> (\<exists>r. api_retrieve_from_ipfs e (trim cid) = Inr r \<and> \<not> rr_success r)"
  shows "out_sent (handleVerify_v1 e prev cid ls) = [PostRetrieveFromIPFS (trim cid)]
         \<and> out_value (handleVerify_v1 e prev cid ls)
             = \<lparr>verificationResult = None, decryptedVC = None, verificationStep = 0\<rparr>
         \<and> out_store (handleVerify_v1 e prev cid ls) = ls
         \<and> out_message (handleVerify_v1 e prev cid ls)
             \<in> {MsgCouldNotRetrieveFromIPFS, MsgCIDNotFound, MsgNoEncryptedDataFound}
                 \<union> range MsgErrorRetrievingFromIPFS"
  using assms
  by (auto simp: handleVerify_v1_def Let_def report_def split: sum.splits option.splits)

lemma demo_found_local:
  "foundCred (demo_store demo_identity [demo_record sig]) ''QmLocal'' = Some (demo_record sig)"
  by (simp add: foundCred_def demo_store_def getItem_def find_cred_def trim_QmLocal
      demo_record_def)

lemma trim_QmNever: "trim ''QmNever'' = ''QmNever''"
  by (simp add: trim_def is_space_def)

lemma demo_verify_v1_local:
  "handleVerify_v1 demo_env prev ''QmLocal'' (demo_store demo_identity [demo_record sig])
     = report (demo_store demo_identity [demo_record sig]) MsgNoEncryptedDataFound
         [PostRetrieveFromIPFS ''QmLocal''] None None 0"
  by (simp add: handleVerify_v1_def trim_QmLocal demo_store_def getItem_def find_cred_def
      demo_env_sel demo_retrieve_def demo_record_def Let_def)

text \<open>
  C6 as stated fails: the first variant of the handler asks the content store although
  the record with the handle caches the ciphertext in local storage, and when the
  content store does not have the handle it gives up without reading the cache.
\<close>

theorem prefer_local_counterexample:
  "local_encryptedVC (foundCred (demo_store demo_identity
        [demo_record createAlwaysValidSignature]) ''QmLocal'')
     = Some (demo_privateKey @ ''#{}'')
   \<and> out_sent (handleVerify_v1 demo_env empty_view ''QmLocal''
        (demo_store demo_identity [demo_record createAlwaysValidSignature]))
     = [PostRetrieveFromIPFS ''QmLocal'']
   \<and> out_message (handleVerify_v1 demo_env empty_view ''QmLocal''
        (demo_store demo_identity [demo_record createAlwaysValidSignature]))
     = MsgNoEncryptedDataFound
   \<and> decryptedVC (out_value (handleVerify_v1 demo_env empty_view ''QmLocal''
        (demo_store demo_identity [demo_record createAlwaysValidSignature]))) = None"
  by (simp add: demo_found_local demo_record_cached demo_verify_v1_local report_def)

text \<open>
  C6, amended. With an identity in local storage and a non-blank handle: the current
  handler takes the ciphertext from the record with the handle when that record caches
  a non-empty one, and then sends no request; only otherwise it asks the content store,
  once. When the cache has none and the content store has none either (the request
  fails, is answered without success or without data), the run ends at step 2 with
  the message "not found in IPFS or local storage", no result, no document and local
  storage unchanged. The first variant asks the content store first in every run and
  never reads a ciphertext from local storage; when the content store does not have
  the handle, its run ends after that one request with a retrieval failure message, no
  result and no document.
\<close>

theorem ciphertext_resolution:
  assumes "trim cid \<noteq> []" and "getItem ls ''userIdentity'' = Some (StoredIdentity i)"
  shows "(\<forall>d. local_encryptedVC (foundCred ls cid) = Some d \<longrightarrow>
            handleVerify e isoNow prev cid ls
              = verify_from e isoNow ls [] True (foundCred ls cid) d (privateKey i)
          \<and> out_sent (handleVerify e isoNow prev cid ls) = [])
       \<and> (local_encryptedVC (foundCred ls cid) = None \<longrightarrow>
            out_sent (handleVerify e isoNow prev cid ls) = [PostRetrieveFromIPFS (trim cid)]
          \<and> (\<forall>d. ipfs_encryptedVC e cid = Inr d \<and> d \<noteq> [] \<longrightarrow>
                handleVerify e isoNow prev cid ls
                  = verify_from e isoNow ls [PostRetrieveFromIPFS (trim cid)] False
                      (foundCred ls cid) d (privateKey i))
          \<and> (\<forall>err. ipfs_encryptedVC e cid = Inl err \<longrightarrow>
                out_message (handleVerify e isoNow prev cid ls) = MsgNotFoundInIPFSOrLocal
              \<and> out_value (handleVerify e isoNow prev cid ls)
                  = \<lparr>verificationResult = None, decryptedVC = None, verificationStep = 2\<rparr>
              \<and> out_store (handleVerify e isoNow prev cid ls) = ls))
       \<and> take 1 (out_sent (handleVerify_v1 e prev cid ls)) = [PostRetrieveFromIPFS (trim cid)]
       \<and> ((\<exists>err. api_retrieve_from_ipfs e (trim cid) = Inl err)
            \<or> (\<exists>r. api_retrieve_from_ipfs e (trim cid) = Inr r \<and> \<not> rr_success r)
          \<longrightarrow>
            out_sent (handleVerify_v1 e prev cid ls) = [PostRetrieveFromIPFS (trim cid)]
          \<and> out_value (handleVerify_v1 e prev cid ls)
              = \<lparr>verificationResult = None, decryptedVC = None, verificationStep = 0\<rparr>
          \<and> out_store (handleVerify_v1 e prev cid ls) = ls
          \<and> out_message (handleVerify_v1 e prev cid ls)
              \<in> {MsgCouldNotRetrieveFromIPFS, MsgCIDNotFound, MsgNoEncryptedDataFound}
                  \<union> range MsgErrorRetrievingFromIPFS)"
proof (intro conjI)
  show "\<forall>d. local_encryptedVC (foundCred ls cid) = Some d \<longrightarrow>
            handleVerify e isoNow prev cid ls
              = verify_from e isoNow ls [] True (foundCred ls cid) d (privateKey i)
          \<and> out_sent (handleVerify e isoNow prev cid ls) = []"
    using resolve_local [OF assms] by blast
  show "local_encryptedVC (foundCred ls cid) = None \<longrightarrow>
            out_sent (handleVerify e isoNow prev cid ls) = [PostRetrieveFromIPFS (trim cid)]
          \<and> (\<forall>d. ipfs_encryptedVC e cid = Inr d \<and> d \<noteq> [] \<longrightarrow>
                handleVerify e isoNow prev cid ls
                  = verify_from e isoNow ls [PostRetrieveFromIPFS (trim cid)] False
                      (foundCred ls cid) d (privateKey i))
          \<and> (\<forall>err. ipfs_encryptedVC e cid = Inl err \<longrightarrow>
                out_message (handleVerify e isoNow prev cid ls) = MsgNotFoundInIPFSOrLocal
              \<and> out_value (handleVerify e isoNow prev cid ls)
                  = \<lparr>verificationResult = None, decryptedVC = None, verificationStep = 2\<rparr>
              \<and> out_store (handleVerify e isoNow prev cid ls) = ls)"
    using resolve_ipfs [OF assms] by (intro impI)
  show "take 1 (out_sent (handleVerify_v1 e prev cid ls)) = [PostRetrieveFromIPFS (trim cid)]"
    by (rule v1_asks_store_first [OF assms])
  show "(\<exists>err. api_retrieve_from_ipfs e (trim cid) = Inl err)
            \<or> (\<exists>r. api_retrieve_from_ipfs e (trim cid) = Inr r \<and> \<not> rr_success r)
          \<longrightarrow>
            out_sent (handleVerify_v1 e prev cid ls) = [PostRetrieveFromIPFS (trim cid)]
          \<and> out_value (handleVerify_v1 e prev cid ls)
              = \<lparr>verificationResult = None, decryptedVC = None, verificationStep = 0\<rparr>
          \<and> out_store (handleVerify_v1 e prev cid ls) = ls
          \<and> out_message (handleVerify_v1 e prev cid ls)
              \<in> {MsgCouldNotRetrieveFromIPFS, MsgCIDNotFound, MsgNoEncryptedDataFound}
                  \<union> range MsgErrorRetrievingFromIPFS"
    using v1_not_in_store [OF assms] by (intro impI)
qed

text \<open>
  The current handler on a cached handle and on a handle that was never published;
  the first variant on the latter.
\<close>

theorem ciphertext_resolution_witness:
  "trim ''QmLocal'' \<noteq> []
   \<and> local_encryptedVC (foundCred (demo_store demo_identity
        [demo_record createAlwaysValidSignature]) ''QmLocal'') \<noteq> None
   \<and> out_sent (handleVerify demo_env ''2025-01-02T00:00:00.000Z'' empty_view ''QmLocal''
        (demo_store demo_identity [demo_record createAlwaysValidSignature])) = []
   \<and> trim ''QmNever'' \<noteq> []
   \<and> local_encryptedVC (foundCred (demo_store demo_identity
        [demo_record createAlwaysValidSignature]) ''QmNever'') = None
   \<and> out_sent (handleVerify demo_env ''2025-01-02T00:00:00.000Z'' empty_view ''QmNever''
        (demo_store demo_identity [demo_record createAlwaysValidSignature]))
       = [PostRetrieveFromIPFS ''QmNever'']
   \<and> out_message (handleVerify demo_env ''2025-01-02T00:00:00.000Z'' empty_view ''QmNever''
        (demo_store demo_identity [demo_record createAlwaysValidSignature]))
       = MsgNotFoundInIPFSOrLocal
   \<and> out_value (handleVerify demo_env ''2025-01-02T00:00:00.000Z'' empty_view ''QmNever''
        (demo_store demo_identity [demo_record createAlwaysValidSignature]))
       = \<lparr>verificationResult = None, decryptedVC = None, verificationStep = 2\<rparr>
   \<and> out_value (handleVerify_v1 demo_env empty_view ''QmNever''
        (demo_store demo_identity [demo_record createAlwaysValidSignature]))
       = \<lparr>verificationResult = None, decryptedVC = None, verificationStep = 0\<rparr>"
proof -
  let ?iso = "''2025-01-02T00:00:00.000Z''"
  let ?ls = "demo_store demo_identity [demo_record createAlwaysValidSignature]"
  have t: "trim ''QmLocal'' \<noteq> []" by (simp add: trim_QmLocal)
  have n: "trim ''QmNever'' \<noteq> []" by (simp add: trim_QmNever)
  have i: "getItem ?ls ''userIdentity'' = Some (StoredIdentity demo_identity)"
    by (simp add: demo_store_def getItem_def)
  have l: "local_encryptedVC (foundCred ?ls ''QmLocal'') = Some (demo_privateKey @ ''#{}'')"
    by (simp add: demo_found_local demo_record_cached)
  have l': "local_encryptedVC (foundCred ?ls ''QmLocal'') \<noteq> None"
    using l by simp
  have m: "local_encryptedVC (foundCred ?ls ''QmNever'') = None"
    by (simp add: foundCred_def demo_store_def getItem_def find_cred_def trim_QmNever
        demo_record_def local_encryptedVC_def)
  have f: "ipfs_encryptedVC demo_env ''QmNever'' = Inl ''not found''"
    by (simp add: ipfs_encryptedVC_def trim_QmNever demo_env_sel demo_retrieve_def)
  have r: "\<exists>r. api_retrieve_from_ipfs demo_env (trim ''QmNever'') = Inr r \<and> \<not> rr_success r"
    by (simp add: trim_QmNever demo_env_sel demo_retrieve_def)
  note A = ciphertext_resolution [OF t i, of demo_env ?iso empty_view]
  note B = ciphertext_resolution [OF n i, of demo_env ?iso empty_view]
  have a: "out_sent (handleVerify demo_env ?iso empty_view ''QmLocal'' ?ls) = []"
    using A l by blast
  have b: "out_sent (handleVerify demo_env ?iso empty_view ''QmNever'' ?ls)
       = [PostRetrieveFromIPFS ''QmNever'']"
    using B m by (simp add: trim_QmNever)
  have c: "out_message (handleVerify demo_env ?iso empty_view ''QmNever'' ?ls)
       = MsgNotFoundInIPFSOrLocal"
    using B m f by blast
  have d: "out_value (handleVerify demo_env ?iso empty_view ''QmNever'' ?ls)
       = \<lparr>verificationResult = None, decryptedVC = None, verificationStep = 2\<rparr>"
    using B m f by blast
  have e: "out_value (handleVerify_v1 demo_env empty_view ''QmNever'' ?ls)
       = \<lparr>verificationResult = None, decryptedVC = None, verificationStep = 0\<rparr>"
    using B r by blast
  show ?thesis
    using t l' a n m b c d e by (intro conjI) assumption+
qed

subsection \<open>The cipher key\<close>


























end
